theory Spec2Isabelle
  imports Complex_Main
begin

section \<open>Data model\<close>

text \<open>
  The beam and objet commands of zgoubidoo (\<^verbatim>\<open>commands/beam.py\<close>,
  \<^verbatim>\<open>commands/objet.py\<close>) work on two library containers: the numpy array and the
  pandas DataFrame. Numeric cells are modelled as exact reals.
\<close>

text \<open>The exceptions the two modules raise themselves or let through from the libraries.\<close>

datatype error =
    ZgoubidooBeamException string
  | ValueError
  | KeyError string
  | ZeroDivisionError
  | AssertionError
  | FileNotFoundError

text \<open>
  A numpy array: its shape and its cells in row-major order. A two-dimensional array of
  \<open>n\<close> rows and \<open>w\<close> columns has shape \<open>[n, w]\<close>.
\<close>

record ndarray =
  shape :: "nat list"
  data :: "real list"

text \<open>
  A column label of a DataFrame: a name (a CSV header, an assigned name) or a position
  (\<^verbatim>\<open>pd.DataFrame(array)\<close> labels the columns 0, 1, 2, ...).
\<close>

datatype label = Str string | Num nat

text \<open>A DataFrame: the column labels and the rows, each row one cell per column.\<close>

record table =
  columns :: "label list"
  rows :: "real list list"

text \<open>
  The values that reach \<^verbatim>\<open>Objet2.add\<close> and that \<^verbatim>\<open>Objet2._PARTICULES\<close> holds:
  \<^verbatim>\<open>None\<close>, a flat Python list of numbers, a numpy array, a DataFrame. Only the
  DataFrame has the attribute \<^verbatim>\<open>columns\<close>.
\<close>

datatype pyval = PyNone | PyList "real list" | NDArray ndarray | DataFrame table

abbreviation YTZPD :: "label list" where
  "YTZPD \<equiv> [Str ''Y'', Str ''T'', Str ''Z'', Str ''P'', Str ''D'']"

section \<open>Library operations\<close>

text \<open>
  Python's slice bound on a sequence of length \<open>len\<close>: a negative bound counts from the
  end, and every bound is clamped into \<open>[0, len]\<close>.
\<close>

definition slice_bound :: "nat \<Rightarrow> int \<Rightarrow> nat" where
  "slice_bound len i = (if i < 0 then nat (max 0 (int len + i)) else min (nat i) len)"

text \<open>\<^verbatim>\<open>xs[start:stop]\<close>, where a bound may be \<^verbatim>\<open>None\<close>.\<close>

definition py_slice :: "int option \<Rightarrow> int option \<Rightarrow> 'a list \<Rightarrow> 'a list" where
  "py_slice start stop xs =
     (let len = length xs;
          lo = (case start of None \<Rightarrow> 0 | Some a \<Rightarrow> slice_bound len a);
          hi = (case stop of None \<Rightarrow> len | Some b \<Rightarrow> slice_bound len b)
      in take (hi - lo) (drop lo xs))"

text \<open>\<^verbatim>\<open>df.iloc[a:b]\<close> and \<^verbatim>\<open>df[:n]\<close>: a row slice keeps the columns.\<close>

definition iloc :: "table \<Rightarrow> int \<Rightarrow> int \<Rightarrow> table" where
  "iloc t a b = t\<lparr>rows := py_slice (Some a) (Some b) (rows t)\<rparr>"

definition df_head :: "table \<Rightarrow> int option \<Rightarrow> table" where
  "df_head t n = t\<lparr>rows := py_slice None n (rows t)\<rparr>"

text \<open>
  \<^verbatim>\<open>df.columns = names\<close>: pandas refuses a list whose length is not the number of
  columns (\<^verbatim>\<open>ValueError: Length mismatch\<close>).
\<close>

definition set_columns :: "table \<Rightarrow> label list \<Rightarrow> error + table" where
  "set_columns t names =
     (if length names = length (columns t) then Inr (t\<lparr>columns := names\<rparr>) else Inl ValueError)"

text \<open>
  \<^verbatim>\<open>df[name] = v\<close> with a scalar: every column of that label is overwritten, and if
  there is none a new last column is added.
\<close>

definition df_setitem :: "table \<Rightarrow> label \<Rightarrow> real \<Rightarrow> table" where
  "df_setitem t name v =
     (if name \<in> set (columns t)
      then t\<lparr>rows := map (\<lambda>r. map (\<lambda>(c, x). if c = name then v else x) (zip (columns t) r)) (rows t)\<rparr>
      else \<lparr>columns = columns t @ [name], rows = map (\<lambda>r. r @ [v]) (rows t)\<rparr>)"

fun label_name :: "label \<Rightarrow> string" where
  "label_name (Str s) = s"
| "label_name (Num n) = ''''"

text \<open>\<^verbatim>\<open>df[name] += v\<close>: a missing label is a \<^verbatim>\<open>KeyError\<close>.\<close>

definition df_iadd :: "table \<Rightarrow> label \<Rightarrow> real \<Rightarrow> error + table" where
  "df_iadd t name v =
     (if name \<in> set (columns t)
      then Inr (t\<lparr>rows := map (\<lambda>r. map (\<lambda>(c, x). if c = name then x + v else x) (zip (columns t) r)) (rows t)\<rparr>)
      else Inl (KeyError (label_name name)))"

text \<open>
  \<^verbatim>\<open>df[names]\<close> with a list of labels: the named columns in the order asked for; a
  label the table does not have is a \<^verbatim>\<open>KeyError\<close>. A cell is looked up through its
  column label; the fallback 0 is never taken on a rectangular table.
\<close>

definition df_select :: "table \<Rightarrow> label list \<Rightarrow> error + table" where
  "df_select t names =
     (case filter (\<lambda>l. l \<notin> set (columns t)) names of
        l # _ \<Rightarrow> Inl (KeyError (label_name l))
      | [] \<Rightarrow> Inr \<lparr>columns = names,
                  rows = map (\<lambda>r. map (\<lambda>l. case map_of (zip (columns t) r) l of
                                               Some x \<Rightarrow> x | None \<Rightarrow> 0) names) (rows t)\<rparr>)"

text \<open>\<^verbatim>\<open>df.values\<close>: the cells as a two-dimensional array.\<close>

definition df_values :: "table \<Rightarrow> ndarray" where
  "df_values t = \<lparr>shape = [length (rows t), length (columns t)], data = concat (rows t)\<rparr>"

text \<open>
  \<^verbatim>\<open>pd.DataFrame(a)\<close> of an array: positional column labels; only one- and
  two-dimensional input is accepted.
\<close>

definition pd_DataFrame :: "ndarray \<Rightarrow> error + table" where
  "pd_DataFrame a =
     (case shape a of
        [n] \<Rightarrow> Inr \<lparr>columns = [Num 0], rows = map (\<lambda>x. [x]) (data a)\<rparr>
      | [n, w] \<Rightarrow> Inr \<lparr>columns = map Num [0..<w],
                       rows = map (\<lambda>i. take w (drop (i * w) (data a))) [0..<n]\<rparr>
      | _ \<Rightarrow> Inl ValueError)"

text \<open>
  \<^verbatim>\<open>np.asarray\<close> as \<^verbatim>\<open>np.append\<close> applies it to its operands. \<^verbatim>\<open>None\<close> becomes a
  zero-dimensional array, which no concatenation accepts.
\<close>

fun as_array :: "pyval \<Rightarrow> ndarray option" where
  "as_array PyNone = None"
| "as_array (PyList xs) = Some \<lparr>shape = [length xs], data = xs\<rparr>"
| "as_array (NDArray a) = Some a"
| "as_array (DataFrame t) = Some (df_values t)"

text \<open>
  \<^verbatim>\<open>np.append(a, b, axis=0)\<close>: both operands need the same number of dimensions (at
  least one) and the same extent on every axis but the first.
\<close>

definition np_append :: "pyval \<Rightarrow> pyval \<Rightarrow> error + ndarray" where
  "np_append u v =
     (case (as_array u, as_array v) of
        (Some a, Some b) \<Rightarrow>
          (case (shape a, shape b) of
             (m # sa, n # sb) \<Rightarrow>
               if sa = sb then Inr \<lparr>shape = (m + n) # sa, data = data a @ data b\<rparr>
               else Inl ValueError
           | _ \<Rightarrow> Inl ValueError)
      | _ \<Rightarrow> Inl ValueError)"

section \<open>Objet2: the population store\<close>

text \<open>
  \<^verbatim>\<open>Objet2\<close> keeps the particles in the attribute \<^verbatim>\<open>_PARTICULES\<close>, which
  \<^verbatim>\<open>post_init\<close> sets to \<^verbatim>\<open>None\<close>. The command parameters (KOBJ, K2, IDMAX, BORO)
  play no part in the store and are left out.
\<close>

record objet2 =
  PARTICULES_attr :: pyval

definition post_init_objet2 :: objet2 where
  "post_init_objet2 = \<lparr>PARTICULES_attr = PyNone\<rparr>"

text \<open>
  \<^verbatim>\<open>np.zeros((1, 7))\<close> with columns 5 (D) and 6 (IEX) set to 1.0.
\<close>

definition default_particules :: ndarray where
  "default_particules = \<lparr>shape = [1, 7], data = (replicate 7 0)[5 := 1, 6 := 1]\<rparr>"

text \<open>
  The property \<^verbatim>\<open>PARTICULES\<close>: a stored list is reshaped to one row of seven (a
  \<^verbatim>\<open>ValueError\<close> if it does not hold seven numbers), an unset store is filled with the
  default row; the value is cached in the attribute and returned.
\<close>

definition PARTICULES :: "objet2 \<Rightarrow> error \<times> objet2 + pyval \<times> objet2" where
  "PARTICULES s =
     (case PARTICULES_attr s of
        PyList xs \<Rightarrow>
          if length xs = 7
          then (let a = NDArray \<lparr>shape = [1, 7], data = xs\<rparr>
                in Inr (a, s\<lparr>PARTICULES_attr := a\<rparr>))
          else Inl (ValueError, s)
      | PyNone \<Rightarrow>
          (let a = NDArray default_particules in Inr (a, s\<lparr>PARTICULES_attr := a\<rparr>))
      | v \<Rightarrow> Inr (v, s))"

definition clear :: "objet2 \<Rightarrow> objet2" where
  "clear s = s\<lparr>PARTICULES_attr := PyNone\<rparr>"

text \<open>
  The normalisation of a table labelled (Y, T, Z, P, D), as \<^verbatim>\<open>add\<close> writes it:
  \<^verbatim>\<open>p['X'] = 0.0; p['IEX'] = 1.0; p['D'] += 1.0;
  p[['Y', 'T', 'Z', 'P', 'X', 'D', 'IEX']].values\<close>.
\<close>

definition normalize :: "table \<Rightarrow> error + ndarray" where
  "normalize p =
     (let p1 = df_setitem p (Str ''X'') 0;
          p2 = df_setitem p1 (Str ''IEX'') 1
      in case df_iadd p2 (Str ''D'') 1 of
           Inl e \<Rightarrow> Inl e
         | Inr p3 \<Rightarrow>
             (case df_select p3 [Str ''Y'', Str ''T'', Str ''Z'', Str ''P'',
                                 Str ''X'', Str ''D'', Str ''IEX''] of
                Inl e \<Rightarrow> Inl e
              | Inr p4 \<Rightarrow> Inr (df_values p4)))"

text \<open>
  \<^verbatim>\<open>Objet2.add(p)\<close>. On an unset store, a value without \<^verbatim>\<open>columns\<close> is stored as it
  is, a table labelled exactly (Y, T, Z, P, D) is normalised and stored, and any other
  table falls through both branches. On a store that holds something, \<open>p\<close> is handed
  to \<^verbatim>\<open>np.append\<close> as it is. An exception leaves the store as it was.
\<close>

definition add :: "pyval \<Rightarrow> objet2 \<Rightarrow> error \<times> objet2 + objet2" where
  "add p s =
     (case PARTICULES_attr s of
        PyNone \<Rightarrow>
          (case p of
             DataFrame t \<Rightarrow>
               if columns t = YTZPD
               then (case normalize t of
                       Inl e \<Rightarrow> Inl (e, s)
                     | Inr a \<Rightarrow> Inr (s\<lparr>PARTICULES_attr := NDArray a\<rparr>))
               else Inr s
           | _ \<Rightarrow> Inr (s\<lparr>PARTICULES_attr := p\<rparr>))
      | stored \<Rightarrow>
          (case np_append stored p of
             Inl e \<Rightarrow> Inl (e, s)
           | Inr a \<Rightarrow> Inr (s\<lparr>PARTICULES_attr := NDArray a\<rparr>)))"

section \<open>Beam\<close>

text \<open>
  What the beam takes from outside the program: \<^verbatim>\<open>pd.read_csv(os.path.join(path, file))\<close>
  (the file system, given the directory and the file name) and the sampler
  \<^verbatim>\<open>multivariate_normal(mean, cov, size)\<close> of numpy.
\<close>

record env =
  read_csv :: "string \<Rightarrow> string \<Rightarrow> error + table"
  generator :: "real list \<Rightarrow> ndarray \<Rightarrow> int \<Rightarrow> error + ndarray"

text \<open>
  The command parameters \<^verbatim>\<open>LABEL1\<close>, \<^verbatim>\<open>SLICE\<close> and \<^verbatim>\<open>REFERENCE\<close>, and the
  attributes \<^verbatim>\<open>_slices\<close> and \<^verbatim>\<open>_distribution\<close>. The particle type, the objet class
  and the kinematics are not read by the operations below.
\<close>

record beam =
  LABEL1 :: string
  SLICE :: int
  REFERENCE :: int
  slices :: int
  distribution :: "table option"

text \<open>\<^verbatim>\<open>Beam.generate_from_file(file, path, n)\<close>: \<^verbatim>\<open>pd.read_csv(...)[:n]\<close>.\<close>

definition generate_from_file :: "env \<Rightarrow> string \<Rightarrow> string \<Rightarrow> int option \<Rightarrow> error + table" where
  "generate_from_file e file path n =
     (case read_csv e path file of Inl x \<Rightarrow> Inl x | Inr t \<Rightarrow> Inr (df_head t n))"

text \<open>
  The last two lines of \<^verbatim>\<open>_initialize_distribution\<close>, reached once the attribute has
  been assigned: a distribution without rows raises.
\<close>

abbreviation invalid_number_of_particles :: error where
  "invalid_number_of_particles \<equiv> ZgoubidooBeamException
     ''Trying to initialize a beam distribution with invalid number of particles.''"

definition assign_and_check :: "beam \<Rightarrow> table \<Rightarrow> error \<times> beam + beam" where
  "assign_and_check b t =
     (let b' = b\<lparr>distribution := Some t\<rparr>
      in if length (rows t) = 0
         then Inl (invalid_number_of_particles, b')
         else Inr b')"

text \<open>
  \<^verbatim>\<open>_initialize_distribution(distribution, *args, **kwargs)\<close>. Of the keyword
  arguments only \<^verbatim>\<open>filename\<close> and \<^verbatim>\<open>path\<close> are read. Without a distribution the
  first positional argument is tried; if there is none (\<^verbatim>\<open>IndexError\<close>) or pandas
  refuses it (\<^verbatim>\<open>ValueError\<close>), the file is read when a name is given, and otherwise
  the method returns with nothing assigned.
\<close>

definition initialize_distribution ::
  "env \<Rightarrow> table option \<Rightarrow> ndarray list \<Rightarrow> string option \<Rightarrow> string option \<Rightarrow> beam
     \<Rightarrow> error \<times> beam + beam" where
  "initialize_distribution e distrib args filename path b =
     (let fallback =
            (case filename of
               Some f \<Rightarrow>
                 (case generate_from_file e f (case path of Some p \<Rightarrow> p | None \<Rightarrow> ''.'') None of
                    Inl x \<Rightarrow> Inl (x, b)
                  | Inr t \<Rightarrow> assign_and_check b t)
             | None \<Rightarrow> Inr b)
      in case distrib of
           Some t \<Rightarrow> assign_and_check b t
         | None \<Rightarrow>
             (case args of
                [] \<Rightarrow> fallback
              | a # _ \<Rightarrow>
                  (case pd_DataFrame a of
                     Inr t \<Rightarrow> assign_and_check b t
                   | Inl _ \<Rightarrow> fallback)))"

definition clear_beam :: "beam \<Rightarrow> beam" where
  "clear_beam b = b\<lparr>distribution := None\<rparr>"

text \<open>
  The window \<^verbatim>\<open>self._distribution.iloc[self.SLICE * n_slices:(self.SLICE + 1) * n_slices]\<close>
  with \<^verbatim>\<open>n_slices = int(np.floor(n_tot / self._slices))\<close>.
\<close>

definition slice_window :: "beam \<Rightarrow> table \<Rightarrow> table" where
  "slice_window b t =
     (let n_tot = int (length (rows t));
          n_slices = n_tot div slices b
      in iloc t (SLICE b * n_slices) ((SLICE b + 1) * n_slices))"

text \<open>
  The property \<^verbatim>\<open>active_slice\<close>. \<^verbatim>\<open>len(None)\<close> is the \<^verbatim>\<open>TypeError\<close> that returns
  \<^verbatim>\<open>None\<close>; the division raises on a slice count of 0; the columns are renamed before
  the window is tested for emptiness.
\<close>

definition active_slice :: "beam \<Rightarrow> error + table option" where
  "active_slice b =
     (case distribution b of
        None \<Rightarrow> Inr None
      | Some t \<Rightarrow>
          if slices b = 0 then Inl ZeroDivisionError
          else (case set_columns (slice_window b t) YTZPD of
                  Inl x \<Rightarrow> Inl x
                | Inr d \<Rightarrow> if length (rows d) = 0 then Inr None else Inr (Some d)))"

text \<open>
  The rows a caller of \<^verbatim>\<open>active_slice\<close> gets to see: those of the returned table, and
  none when the property returns \<^verbatim>\<open>None\<close>.
\<close>

definition view_rows :: "error + table option \<Rightarrow> real list list" where
  "view_rows r = (case r of Inr (Some d) \<Rightarrow> rows d | _ \<Rightarrow> [])"

text \<open>
  Modelled from the spec: \<^verbatim>\<open>ParametricMapping.combinations\<close> of \<^verbatim>\<open>zgoubidoo/input.py\<close>,
  which is not among the sources. The spec describes the expansion of a mapping set as
  the Cartesian product of the axes, in the order the axes are registered and, within an
  axis, in the order of its values (row-major), each element a single-assignment
  dictionary over all the names.
\<close>

fun combinations :: "(string \<times> 'v list) list \<Rightarrow> (string \<times> 'v) list list" where
  "combinations [] = [[]]"
| "combinations ((name, vals) # axes) =
     concat (map (\<lambda>v. map (\<lambda>rest. (name, v) # rest) (combinations axes)) vals)"

text \<open>
  The property \<^verbatim>\<open>mappings\<close>; a dictionary is the list of its items, and
  \<^verbatim>\<open>range(0, self._slices)\<close> is \<open>[0..slices b - 1]\<close>.
\<close>

definition mappings :: "beam \<Rightarrow> (string \<times> int) list list" where
  "mappings b =
     (if REFERENCE b = 1 then [[(LABEL1 b @ ''.REFERENCE'', 1)]]
      else combinations [(LABEL1 b @ ''.SLICE'', [0..slices b - 1])])"

text \<open>\<^verbatim>\<open>from_file(file, n, path)\<close>.\<close>

definition from_file :: "env \<Rightarrow> string \<Rightarrow> int option \<Rightarrow> string \<Rightarrow> beam \<Rightarrow> error \<times> beam + beam" where
  "from_file e file n path b =
     (case generate_from_file e file path n of
        Inl x \<Rightarrow> Inl (x, b)
      | Inr t \<Rightarrow> initialize_distribution e (Some t) [] None None b)"

text \<open>The keyword arguments of \<^verbatim>\<open>generate_from_5d_sigma_matrix\<close>; all default to 0, the matrix to \<^verbatim>\<open>None\<close>.\<close>

record sigma_args =
  kw_x :: real
  kw_px :: real
  kw_y :: real
  kw_py :: real
  kw_dpp :: real
  kw_s11 :: real
  kw_s12 :: real
  kw_s13 :: real
  kw_s14 :: real
  kw_s15 :: real
  kw_s22 :: real
  kw_s23 :: real
  kw_s24 :: real
  kw_s25 :: real
  kw_s33 :: real
  kw_s34 :: real
  kw_s35 :: real
  kw_s44 :: real
  kw_s45 :: real
  kw_dpprms :: real
  kw_matrix :: "ndarray option"

definition sigma_defaults :: sigma_args where
  "sigma_defaults =
     \<lparr>kw_x = 0, kw_px = 0, kw_y = 0, kw_py = 0, kw_dpp = 0,
      kw_s11 = 0, kw_s12 = 0, kw_s13 = 0, kw_s14 = 0, kw_s15 = 0,
      kw_s22 = 0, kw_s23 = 0, kw_s24 = 0, kw_s25 = 0,
      kw_s33 = 0, kw_s34 = 0, kw_s35 = 0, kw_s44 = 0, kw_s45 = 0,
      kw_dpprms = 0, kw_matrix = None\<rparr>"

text \<open>
  The nested list that \<^verbatim>\<open>generate_from_5d_sigma_matrix\<close> hands to \<^verbatim>\<open>np.array\<close>:
  the lower triangle mirrors the upper one and \<^verbatim>\<open>s55 = dpprms ** 2\<close>.
\<close>

definition sigma_matrix :: "sigma_args \<Rightarrow> real list list" where
  "sigma_matrix a =
     (let s21 = kw_s12 a; s31 = kw_s13 a; s32 = kw_s23 a; s41 = kw_s14 a; s42 = kw_s24 a;
          s43 = kw_s34 a; s51 = kw_s15 a; s52 = kw_s25 a; s53 = kw_s35 a; s54 = kw_s45 a;
          s55 = (kw_dpprms a)\<^sup>2
      in [[kw_s11 a, kw_s12 a, kw_s13 a, kw_s14 a, kw_s15 a],
          [s21, kw_s22 a, kw_s23 a, kw_s24 a, kw_s25 a],
          [s31, s32, kw_s33 a, kw_s34 a, kw_s35 a],
          [s41, s42, s43, kw_s44 a, kw_s45 a],
          [s51, s52, s53, s54, s55]])"

text \<open>\<^verbatim>\<open>np.array\<close> of a nested list of rows.\<close>

definition np_array :: "real list list \<Rightarrow> ndarray" where
  "np_array rs =
     \<lparr>shape = [length rs, (case rs of [] \<Rightarrow> 0 | r # _ \<Rightarrow> length r)], data = concat rs\<rparr>"

definition generate_from_5d_sigma_matrix :: "env \<Rightarrow> int \<Rightarrow> sigma_args \<Rightarrow> error + ndarray" where
  "generate_from_5d_sigma_matrix e n a =
     (let mean = [kw_x a, kw_px a, kw_y a, kw_py a, kw_dpp a]
      in case kw_matrix a of
           Some m \<Rightarrow>
             if shape m = [5, 5] then generator e mean m n else Inl AssertionError
         | None \<Rightarrow> generator e mean (np_array (sigma_matrix a)) n)"

text \<open>\<^verbatim>\<open>from_5d_sigma_matrix(n, **kwargs)\<close>.\<close>

definition from_5d_sigma_matrix :: "env \<Rightarrow> int \<Rightarrow> sigma_args \<Rightarrow> beam \<Rightarrow> error \<times> beam + beam" where
  "from_5d_sigma_matrix e n a b =
     (case generate_from_5d_sigma_matrix e n a of
        Inl x \<Rightarrow> Inl (x, b)
      | Inr arr \<Rightarrow>
          (case pd_DataFrame arr of
             Inl x \<Rightarrow> Inl (x, b)
           | Inr t \<Rightarrow> initialize_distribution e (Some t) [] None None b))"

text \<open>The keyword names \<^verbatim>\<open>from_twiss_parameters\<close> accepts.\<close>

definition keys :: "string list" where
  "keys = [''X'', ''PX'', ''Y'', ''PY'', ''DPP'', ''DPPRMS'', ''BETAX'', ''ALPHAX'',
           ''BETAY'', ''ALPHAY'', ''EMITX'', ''EMITY'']"

text \<open>\<^verbatim>\<open>kwargs.get(k, d)\<close> on the keyword arguments, held as the list of their items.\<close>

definition kwargs_get :: "(string \<times> real) list \<Rightarrow> string \<Rightarrow> real \<Rightarrow> real" where
  "kwargs_get kwargs k d = (case map_of kwargs k of Some v \<Rightarrow> v | None \<Rightarrow> d)"

text \<open>
  The part of \<^verbatim>\<open>from_twiss_parameters\<close> before the call of
  \<^verbatim>\<open>from_5d_sigma_matrix\<close>: the check of the names, the two gammas (a beta of 0 is a
  division by zero) and the keyword arguments of the call, where \<^verbatim>\<open>kwargs['EMITX']\<close>
  and \<^verbatim>\<open>kwargs['EMITY']\<close> raise \<^verbatim>\<open>KeyError\<close> when absent.
\<close>

definition twiss_sigma_args :: "(string \<times> real) list \<Rightarrow> error + sigma_args" where
  "twiss_sigma_args kwargs =
     (if list_ex (\<lambda>k. k \<notin> set keys) (map fst kwargs)
      then Inl (ZgoubidooBeamException ''Invalid argument for a twiss distribution.'')
      else
        let betax = kwargs_get kwargs ''BETAX'' 1;
            alphax = kwargs_get kwargs ''ALPHAX'' 0
        in if betax = 0 then Inl ZeroDivisionError
           else
             let gammax = (1 + alphax\<^sup>2) / betax;
                 betay = kwargs_get kwargs ''BETAY'' 1;
                 alphay = kwargs_get kwargs ''ALPHAY'' 0
             in if betay = 0 then Inl ZeroDivisionError
                else
                  let gammay = (1 + alphay\<^sup>2) / betay
                  in case map_of kwargs ''EMITX'' of
                       None \<Rightarrow> Inl (KeyError ''EMITX'')
                     | Some emitx \<Rightarrow>
                         (case map_of kwargs ''EMITY'' of
                            None \<Rightarrow> Inl (KeyError ''EMITY'')
                          | Some emity \<Rightarrow>
                              Inr (sigma_defaults
                                    \<lparr>kw_x := kwargs_get kwargs ''X'' 0,
                                     kw_px := kwargs_get kwargs ''PX'' 0,
                                     kw_y := kwargs_get kwargs ''Y'' 0,
                                     kw_py := kwargs_get kwargs ''PY'' 0,
                                     kw_dpp := kwargs_get kwargs ''DPP'' 0,
                                     kw_dpprms := kwargs_get kwargs ''DPPRMS'' 0,
                                     kw_s11 := betax * emitx,
                                     kw_s12 := - alphax * emitx,
                                     kw_s22 := gammax * emitx,
                                     kw_s33 := betay * emity,
                                     kw_s34 := - alphay * emity,
                                     kw_s44 := gammay * emity\<rparr>)))"

text \<open>\<^verbatim>\<open>from_twiss_parameters(n, **kwargs)\<close>.\<close>

definition from_twiss_parameters ::
  "env \<Rightarrow> int \<Rightarrow> (string \<times> real) list \<Rightarrow> beam \<Rightarrow> error \<times> beam + beam" where
  "from_twiss_parameters e n kwargs b =
     (case twiss_sigma_args kwargs of
        Inl x \<Rightarrow> Inl (x, b)
      | Inr a \<Rightarrow> from_5d_sigma_matrix e n a b)"

section \<open>Properties of the population store\<close>

lemma default_particules_data:
  "default_particules = \<lparr>shape = [1, 7], data = [0, 0, 0, 0, 0, 1, 1]\<rparr>"
  by (simp add: default_particules_def numeral_eq_Suc)

lemma PARTICULES_unset:
  "PARTICULES_attr s = PyNone \<Longrightarrow>
     PARTICULES s = Inr (NDArray default_particules, s\<lparr>PARTICULES_attr := NDArray default_particules\<rparr>)"
  by (simp add: PARTICULES_def Let_def)

text \<open>
  Claim C3. Adding the table labelled (Y, T, Z, P, D) with the single row
  \<open>[1.0, 2.0, 3.0, 4.0, 0.5]\<close> to a fresh \<^verbatim>\<open>Objet2\<close> leaves a store of shape (1, 7)
  whose row is \<open>[1.0, 2.0, 3.0, 4.0, 0.0, 1.5, 1.0]\<close>, and reading the property
  \<^verbatim>\<open>PARTICULES\<close> returns that array.
\<close>

theorem add_foreign_row_to_empty_store:
  "add (DataFrame \<lparr>columns = YTZPD, rows = [[1, 2, 3, 4, 0.5]]\<rparr>) post_init_objet2
     = Inr \<lparr>PARTICULES_attr = NDArray \<lparr>shape = [1, 7], data = [1, 2, 3, 4, 0, 1.5, 1]\<rparr>\<rparr>
   \<and> PARTICULES \<lparr>PARTICULES_attr = NDArray \<lparr>shape = [1, 7], data = [1, 2, 3, 4, 0, 1.5, 1]\<rparr>\<rparr>
     = Inr (NDArray \<lparr>shape = [1, 7], data = [1, 2, 3, 4, 0, 1.5, 1]\<rparr>,
            \<lparr>PARTICULES_attr = NDArray \<lparr>shape = [1, 7], data = [1, 2, 3, 4, 0, 1.5, 1]\<rparr>\<rparr>)"
  by (simp add: add_def post_init_objet2_def normalize_def df_setitem_def df_iadd_def
        df_select_def df_values_def PARTICULES_def)

text \<open>
  Claim C9. \<^verbatim>\<open>clear\<close> puts the store back to the state \<^verbatim>\<open>post_init\<close> leaves, with
  \<^verbatim>\<open>_PARTICULES\<close> unset; reading \<^verbatim>\<open>PARTICULES\<close> from that state returns, and stores,
  one row of seven cells, all 0 except D (column 5) and IEX (column 6), which are 1;
  and from no state at all does the property return \<^verbatim>\<open>None\<close>.
\<close>

theorem clear_then_read_default:
  "PARTICULES_attr (clear s) = PyNone
   \<and> clear s = post_init_objet2
   \<and> PARTICULES (clear s)
       = Inr (NDArray \<lparr>shape = [1, 7], data = [0, 0, 0, 0, 0, 1, 1]\<rparr>,
              \<lparr>PARTICULES_attr = NDArray \<lparr>shape = [1, 7], data = [0, 0, 0, 0, 0, 1, 1]\<rparr>\<rparr>)
   \<and> PARTICULES post_init_objet2
       = Inr (NDArray \<lparr>shape = [1, 7], data = [0, 0, 0, 0, 0, 1, 1]\<rparr>,
              \<lparr>PARTICULES_attr = NDArray \<lparr>shape = [1, 7], data = [0, 0, 0, 0, 0, 1, 1]\<rparr>\<rparr>)
   \<and> PARTICULES s' \<noteq> Inr (PyNone, s'')"
proof -
  have a: "PARTICULES_attr (clear s) = PyNone" by (simp add: clear_def)
  have b: "clear s = post_init_objet2" by (simp add: clear_def post_init_objet2_def)
  have c: "PARTICULES post_init_objet2
       = Inr (NDArray \<lparr>shape = [1, 7], data = [0, 0, 0, 0, 0, 1, 1]\<rparr>,
              \<lparr>PARTICULES_attr = NDArray \<lparr>shape = [1, 7], data = [0, 0, 0, 0, 0, 1, 1]\<rparr>\<rparr>)"
    using PARTICULES_unset [of post_init_objet2]
    by (simp add: post_init_objet2_def default_particules_data)
  have d: "PARTICULES s' \<noteq> Inr (PyNone, s'')"
    by (simp add: PARTICULES_def Let_def split: pyval.splits)
  from a b c d show ?thesis by simp
qed

text \<open>
  Claim C10. On an unset store, adding a table whose column list is not exactly
  \<open>['Y', 'T', 'Z', 'P', 'D']\<close> returns normally and leaves the store as it was, unset;
  the next read of \<^verbatim>\<open>PARTICULES\<close> gives the default row, not the table.
\<close>

theorem add_other_columns_discarded:
  assumes "PARTICULES_attr s = PyNone" and "columns t \<noteq> YTZPD"
  shows "add (DataFrame t) s = Inr s
       \<and> PARTICULES s
           = Inr (NDArray \<lparr>shape = [1, 7], data = [0, 0, 0, 0, 0, 1, 1]\<rparr>,
                  \<lparr>PARTICULES_attr = NDArray \<lparr>shape = [1, 7], data = [0, 0, 0, 0, 0, 1, 1]\<rparr>\<rparr>)"
  using assms PARTICULES_unset [of s]
  by (simp add: add_def default_particules_data)

theorem add_other_columns_discarded_witness:
  "add (DataFrame \<lparr>columns = [Str ''Y'', Str ''T'', Str ''Z'', Str ''D'', Str ''P''],
                    rows = [[1, 2, 3, 0.5, 4]]\<rparr>) \<lparr>PARTICULES_attr = PyNone\<rparr>
     = Inr \<lparr>PARTICULES_attr = PyNone\<rparr>
   \<and> PARTICULES \<lparr>PARTICULES_attr = PyNone\<rparr>
       = Inr (NDArray \<lparr>shape = [1, 7], data = [0, 0, 0, 0, 0, 1, 1]\<rparr>,
              \<lparr>PARTICULES_attr = NDArray \<lparr>shape = [1, 7], data = [0, 0, 0, 0, 0, 1, 1]\<rparr>\<rparr>)"
  using add_other_columns_discarded [of "\<lparr>PARTICULES_attr = PyNone\<rparr>"
      "\<lparr>columns = [Str ''Y'', Str ''T'', Str ''Z'', Str ''D'', Str ''P''], rows = [[1, 2, 3, 0.5, 4]]\<rparr>"]
  by simp

text \<open>
  Claim C2 at a store that already holds a population. The store holds the default row
  of seven columns; adding the table labelled (Y, T, Z, P, D) with the row
  \<open>[1.0, 2.0, 3.0, 4.0, 0.5]\<close> is handed to \<^verbatim>\<open>np.append\<close> without normalisation,
  which raises \<^verbatim>\<open>ValueError\<close> on 7 against 5 columns; the store keeps its one row.
\<close>

theorem add_foreign_to_filled_store_raises:
  "add (DataFrame \<lparr>columns = YTZPD, rows = [[1, 2, 3, 4, 0.5]]\<rparr>)
       \<lparr>PARTICULES_attr = NDArray \<lparr>shape = [1, 7], data = [0, 0, 0, 0, 0, 1, 1]\<rparr>\<rparr>
     = Inl (ValueError, \<lparr>PARTICULES_attr = NDArray \<lparr>shape = [1, 7], data = [0, 0, 0, 0, 0, 1, 1]\<rparr>\<rparr>)"
  by (simp add: add_def np_append_def df_values_def)

lemma row_of_five: "length r = 5 \<Longrightarrow> \<exists>a b c d e. r = [a, b, c, d, e]"
  by (simp add: numeral_eq_Suc length_Suc_conv) blast

text \<open>
  The branch of \<^verbatim>\<open>add\<close> for an unset store does normalise every row of a rectangular
  table labelled (Y, T, Z, P, D): X = 0 is inserted, D is shifted by 1, IEX = 1 is added.
\<close>

lemma normalize_rows:
  assumes "columns t = YTZPD" and "\<forall>r \<in> set (rows t). length r = 5"
  shows "normalize t = Inr \<lparr>shape = [length (rows t), 7],
           data = concat (map (\<lambda>r. [r ! 0, r ! 1, r ! 2, r ! 3, 0, r ! 4 + 1, 1]) (rows t))\<rparr>"
  using assms(1)
  apply (simp add: normalize_def df_setitem_def df_iadd_def df_select_def df_values_def o_def)
  apply (rule arg_cong [where f = concat])
  apply (rule map_cong [OF refl])
  subgoal for r
    using assms(2) row_of_five [of r] by auto
  done


lemma add_foreign_to_empty_store:
  assumes "PARTICULES_attr s = PyNone" and "columns t = YTZPD"
    and "\<forall>r \<in> set (rows t). length r = 5"
  shows "add (DataFrame t) s = Inr (s\<lparr>PARTICULES_attr := NDArray \<lparr>shape = [length (rows t), 7],
           data = concat (map (\<lambda>r. [r ! 0, r ! 1, r ! 2, r ! 3, 0, r ! 4 + 1, 1]) (rows t))\<rparr>\<rparr>)"
  using assms(1,2) normalize_rows [OF assms(2,3)] by (simp add: add_def)

section \<open>Properties of the slice selector\<close>

lemma concat_windows:
  "concat (map (\<lambda>i. take n (drop (i * n) xs)) [0..<j]) = take (j * n) xs"
proof (induction j)
  case 0
  show ?case by simp
next
  case (Suc j)
  have "take (j * n) xs @ take n (drop (j * n) xs) = take (j * n + n) xs"
    by (simp add: take_add)
  with Suc show ?case by (simp add: add.commute)
qed

lemma slice_bound_int: "slice_bound len (int m) = min m len"
  by (simp add: slice_bound_def)

lemma window_rows:
  assumes "slices b = int k" and "SLICE b = int i" and "i < k"
  shows "rows (slice_window b t) =
           take (length (rows t) div k) (drop (i * (length (rows t) div k)) (rows t))"
proof -
  define n where "n = length (rows t) div k"
  have kn: "k * n \<le> length (rows t)"
    unfolding n_def by simp
  have "Suc i * n \<le> k * n"
    using assms(3) by (intro mult_le_mono1) simp
  with kn have hi: "Suc i * n \<le> length (rows t)" by linarith
  then have lo: "i * n \<le> length (rows t)" by simp
  have d: "int (length (rows t)) div slices b = int n"
    unfolding n_def assms(1) by (simp add: zdiv_int)
  have a: "SLICE b * int n = int (i * n)"
    unfolding assms(2) by simp
  have c: "(SLICE b + 1) * int n = int (Suc i * n)"
    unfolding assms(2) by (simp add: algebra_simps)
  have "rows (slice_window b t) =
          take (min (Suc i * n) (length (rows t)) - min (i * n) (length (rows t)))
               (drop (min (i * n) (length (rows t))) (rows t))"
    by (simp only: slice_window_def iloc_def py_slice_def Let_def d a c slice_bound_int
          option.case) simp
  also have "\<dots> = take n (drop (i * n) (rows t))"
    using hi lo by (simp add: min_absorb1)
  finally show ?thesis unfolding n_def .
qed

lemma active_slice_five:
  assumes "distribution b = Some t" and "length (columns t) = 5" and "slices b \<noteq> 0"
  shows "active_slice b =
           (if rows (slice_window b t) = [] then Inr None
            else Inr (Some \<lparr>columns = YTZPD, rows = rows (slice_window b t)\<rparr>))"
  using assms
  by (simp add: active_slice_def set_columns_def slice_window_def iloc_def Let_def)

text \<open>
  Claim C1, amended. For every distribution of exactly five columns, every slice count
  \<open>k \<ge> 1\<close> and \<open>n = length (rows t) div k\<close>: the active slice of index \<open>i < k\<close>
  is \<^verbatim>\<open>None\<close> when \<open>n = 0\<close> and otherwise the table of rows
  \<open>[i * n, (i + 1) * n)\<close> under the five coordinate names; the windows of two different
  indices share no position; the views concatenated in index order are the first
  \<open>k * n\<close> rows; the rows left over are \<open>length (rows t) mod k\<close> many.
\<close>

theorem active_slice_partition:
  assumes "distribution b = Some t" and "length (columns t) = 5"
    and "slices b = int k" and "0 < k" and "n = length (rows t) div k"
  shows "(\<forall>i<k. active_slice (b\<lparr>SLICE := int i\<rparr>) =
             Inr (if n = 0 then None
                  else Some \<lparr>columns = YTZPD, rows = take n (drop (i * n) (rows t))\<rparr>))
       \<and> (\<forall>i<k. view_rows (active_slice (b\<lparr>SLICE := int i\<rparr>)) = take n (drop (i * n) (rows t)))
       \<and> concat (map (\<lambda>i. view_rows (active_slice (b\<lparr>SLICE := int i\<rparr>))) [0..<k])
           = take (k * n) (rows t)
       \<and> (\<forall>i<k. \<forall>j<k. i \<noteq> j \<longrightarrow> {i * n..<(i + 1) * n} \<inter> {j * n..<(j + 1) * n} = {})
       \<and> length (drop (k * n) (rows t)) = length (rows t) mod k"
proof -
  have kn: "k * n \<le> length (rows t)"
    unfolding assms(5) by simp
  have win: "rows (slice_window (b\<lparr>SLICE := int i\<rparr>) t) = take n (drop (i * n) (rows t))"
    if "i < k" for i
    using window_rows [of "b\<lparr>SLICE := int i\<rparr>" k i t] that assms(3,5) by simp
  have len: "length (take n (drop (i * n) (rows t))) = n" if "i < k" for i
  proof -
    have "Suc i * n \<le> k * n" using that by (intro mult_le_mono1) simp
    with kn have "i * n + n \<le> length (rows t)" by simp
    then show ?thesis by simp
  qed
  have act: "active_slice (b\<lparr>SLICE := int i\<rparr>) =
               Inr (if n = 0 then None
                    else Some \<lparr>columns = YTZPD, rows = take n (drop (i * n) (rows t))\<rparr>)"
    if "i < k" for i
  proof -
    have e: "(take n (drop (i * n) (rows t)) = []) = (n = 0)"
      using len [OF that] by (metis length_0_conv)
    have "slices (b\<lparr>SLICE := int i\<rparr>) \<noteq> 0" using assms(3,4) by simp
    moreover have "distribution (b\<lparr>SLICE := int i\<rparr>) = Some t" using assms(1) by simp
    ultimately show ?thesis
      using active_slice_five [of "b\<lparr>SLICE := int i\<rparr>" t] assms(2) win [OF that] e by simp
  qed
  have view: "view_rows (active_slice (b\<lparr>SLICE := int i\<rparr>)) = take n (drop (i * n) (rows t))"
    if "i < k" for i
    using act [OF that] by (simp add: view_rows_def)
  have cat: "concat (map (\<lambda>i. view_rows (active_slice (b\<lparr>SLICE := int i\<rparr>))) [0..<k])
               = take (k * n) (rows t)"
  proof -
    have "map (\<lambda>i. view_rows (active_slice (b\<lparr>SLICE := int i\<rparr>))) [0..<k]
            = map (\<lambda>i. take n (drop (i * n) (rows t))) [0..<k]"
      by (rule map_cong) (simp_all add: view)
    then show ?thesis by (simp only: concat_windows)
  qed
  have disj: "{i * n..<(i + 1) * n} \<inter> {j * n..<(j + 1) * n} = {}" if "i \<noteq> j" for i j :: nat
  proof (cases "i < j")
    case True
    then have "Suc i * n \<le> j * n" by (intro mult_le_mono1) simp
    then show ?thesis by auto
  next
    case False
    with that have "Suc j * n \<le> i * n" by (intro mult_le_mono1) simp
    then show ?thesis by auto
  qed
  have rem: "length (drop (k * n) (rows t)) = length (rows t) mod k"
    unfolding assms(5) by (simp add: minus_mult_div_eq_mod)
  from act view cat disj rem show ?thesis by blast
qed


theorem active_slice_partition_witness:
  "active_slice \<lparr>LABEL1 = ''BEAM'', SLICE = 1, REFERENCE = 0, slices = 2,
       distribution = Some \<lparr>columns = map Num [0..<5],
         rows = [[1, 0, 0, 0, 0], [2, 0, 0, 0, 0], [3, 0, 0, 0, 0], [4, 0, 0, 0, 0],
                 [5, 0, 0, 0, 0]]\<rparr>\<rparr>
     = Inr (Some \<lparr>columns = YTZPD, rows = [[3, 0, 0, 0, 0], [4, 0, 0, 0, 0]]\<rparr>)
   \<and> concat (map (\<lambda>i. view_rows (active_slice
         \<lparr>LABEL1 = ''BEAM'', SLICE = int i, REFERENCE = 0, slices = 2,
          distribution = Some \<lparr>columns = map Num [0..<5],
            rows = [[1, 0, 0, 0, 0], [2, 0, 0, 0, 0], [3, 0, 0, 0, 0], [4, 0, 0, 0, 0],
                    [5, 0, 0, 0, 0]]\<rparr>\<rparr>)) [0..<2])
     = [[1, 0, 0, 0, 0], [2, 0, 0, 0, 0], [3, 0, 0, 0, 0], [4, 0, 0, 0, 0]]"
proof -
  let ?t = "\<lparr>columns = map Num [0..<5],
             rows = [[1, 0, 0, 0, 0], [2, 0, 0, 0, 0], [3, 0, 0, 0, 0], [4, 0, 0, 0, 0],
                     [5, 0, 0, 0, 0::real]]\<rparr>"
  let ?b = "\<lparr>LABEL1 = ''BEAM'', SLICE = 0, REFERENCE = 0, slices = 2, distribution = Some ?t\<rparr>"
  have h1: "distribution ?b = Some ?t" by simp
  have h2: "length (columns ?t) = 5" by simp
  have h3: "slices ?b = int 2" by simp
  have h4: "(0::nat) < 2" by simp
  have h5: "(2::nat) = length (rows ?t) div 2" by simp
  note T = active_slice_partition [OF h1 h2 h3 h4 h5]
  from T have S: "\<forall>i<2. active_slice (?b\<lparr>SLICE := int i\<rparr>) =
      Inr (if (2::nat) = 0 then None
           else Some \<lparr>columns = YTZPD, rows = take 2 (drop (i * 2) (rows ?t))\<rparr>)"
    by (rule conjunct1)
  have A: "active_slice (?b\<lparr>SLICE := 1\<rparr>) =
      Inr (Some \<lparr>columns = YTZPD, rows = [[3, 0, 0, 0, 0], [4, 0, 0, 0, 0]]\<rparr>)"
    using S [rule_format, of 1] by (simp add: numeral_2_eq_2)
  from T have "concat (map (\<lambda>i. view_rows (active_slice (?b\<lparr>SLICE := int i\<rparr>))) [0..<2])
      = take (2 * 2) (rows ?t)"
    by simp
  then have B: "concat (map (\<lambda>i. view_rows (active_slice (?b\<lparr>SLICE := int i\<rparr>))) [0..<2])
      = [[1, 0, 0, 0, 0], [2, 0, 0, 0, 0], [3, 0, 0, 0, 0], [4, 0, 0, 0, 0]]"
    by (simp add: numeral_eq_Suc)
  from A B show ?thesis by simp
qed

text \<open>
  Claim C1 as stated fails on a population that has the seven columns of the store: the
  renaming to five names raises, so the slice of index 0 of 1 is no view of rows 0 and 1.
\<close>

theorem active_slice_seven_columns_counterexample:
  "active_slice \<lparr>LABEL1 = ''BEAM'', SLICE = 0, REFERENCE = 0, slices = 1,
       distribution = Some \<lparr>columns = [Str ''Y'', Str ''T'', Str ''Z'', Str ''P'', Str ''X'', Str ''D'', Str ''IEX''],
         rows = [[1, 2, 3, 4, 0, 1.5, 1], [5, 6, 7, 8, 0, 1, 1]]\<rparr>\<rparr> = Inl ValueError
   \<and> view_rows (active_slice \<lparr>LABEL1 = ''BEAM'', SLICE = 0, REFERENCE = 0, slices = 1,
       distribution = Some \<lparr>columns = [Str ''Y'', Str ''T'', Str ''Z'', Str ''P'', Str ''X'', Str ''D'', Str ''IEX''],
         rows = [[1, 2, 3, 4, 0, 1.5, 1], [5, 6, 7, 8, 0, 1, 1]]\<rparr>\<rparr>)
     \<noteq> take 2 (drop (0 * 2) [[1, 2, 3, 4, 0, 1.5, 1], [5, 6, 7, 8, 0, 1, 1]])"
  by (simp add: active_slice_def set_columns_def slice_window_def iloc_def view_rows_def)


text \<open>
  Claim C7, amended. For every distribution of exactly five columns and every slice
  selection with a slice count other than 0, the active slice is \<^verbatim>\<open>None\<close> when the
  window has no rows, and otherwise the table of the window's rows under exactly the
  names (Y, T, Z, P, D). The window has the columns of the distribution: the names
  replace the five labels, and no column is dropped.
\<close>

theorem active_slice_none_or_five_names:
  assumes "distribution b = Some t" and "length (columns t) = 5" and "slices b \<noteq> 0"
  shows "active_slice b =
           (if rows (slice_window b t) = [] then Inr None
            else Inr (Some \<lparr>columns = YTZPD, rows = rows (slice_window b t)\<rparr>))
       \<and> columns (slice_window b t) = columns t"
  using active_slice_five [OF assms]
  by (simp add: slice_window_def iloc_def Let_def)

theorem active_slice_none_or_five_names_witness:
  "active_slice \<lparr>LABEL1 = ''BEAM'', SLICE = 1, REFERENCE = 0, slices = 3,
       distribution = Some \<lparr>columns = map Num [0..<5],
         rows = [[1, 0, 0, 0, 0], [2, 0, 0, 0, 0], [3, 0, 0, 0, 0]]\<rparr>\<rparr>
     = Inr (Some \<lparr>columns = YTZPD, rows = [[2, 0, 0, 0, 0]]\<rparr>)
   \<and> active_slice \<lparr>LABEL1 = ''BEAM'', SLICE = 1, REFERENCE = 0, slices = 4,
       distribution = Some \<lparr>columns = map Num [0..<5],
         rows = [[1, 0, 0, 0, 0], [2, 0, 0, 0, 0], [3, 0, 0, 0, 0]]\<rparr>\<rparr>
     = Inr None"
proof -
  let ?t = "\<lparr>columns = map Num [0..<5],
             rows = [[1, 0, 0, 0, 0], [2, 0, 0, 0, 0], [3, 0, 0, 0, 0 :: real]]\<rparr>"
  let ?b3 = "\<lparr>LABEL1 = ''BEAM'', SLICE = 1, REFERENCE = 0, slices = 3, distribution = Some ?t\<rparr>"
  let ?b4 = "\<lparr>LABEL1 = ''BEAM'', SLICE = 1, REFERENCE = 0, slices = 4, distribution = Some ?t\<rparr>"
  have c: "length (columns ?t) = 5" by simp
  have d3: "distribution ?b3 = Some ?t" and s3: "slices ?b3 \<noteq> 0" by simp_all
  have d4: "distribution ?b4 = Some ?t" and s4: "slices ?b4 \<noteq> 0" by simp_all
  have w3: "rows (slice_window ?b3 ?t) = [[2, 0, 0, 0, 0]]"
    by (simp add: slice_window_def iloc_def py_slice_def slice_bound_def)
  have w4: "rows (slice_window ?b4 ?t) = []"
    by (simp add: slice_window_def iloc_def py_slice_def slice_bound_def)
  have a3: "active_slice ?b3 = Inr (Some \<lparr>columns = YTZPD, rows = [[2, 0, 0, 0, 0]]\<rparr>)"
    using active_slice_none_or_five_names [OF d3 c s3] unfolding w3 by simp
  have a4: "active_slice ?b4 = Inr None"
    using active_slice_none_or_five_names [OF d4 c s4] unfolding w4 by simp
  from a3 a4 show ?thesis by (rule conjI)
qed

text \<open>
  Claim C7 as stated fails on a population that carries the flag column beside the five
  coordinates: the view is neither \<^verbatim>\<open>None\<close> nor the five coordinate columns with IEX
  dropped; the renaming raises \<^verbatim>\<open>ValueError\<close>.
\<close>

theorem active_slice_extra_column_counterexample:
  "active_slice \<lparr>LABEL1 = ''BEAM'', SLICE = 0, REFERENCE = 0, slices = 1,
       distribution = Some \<lparr>columns = [Str ''Y'', Str ''T'', Str ''Z'', Str ''P'', Str ''D'', Str ''IEX''],
         rows = [[1, 2, 3, 4, 0.5, 1]]\<rparr>\<rparr>
     \<noteq> Inr None
   \<and> active_slice \<lparr>LABEL1 = ''BEAM'', SLICE = 0, REFERENCE = 0, slices = 1,
       distribution = Some \<lparr>columns = [Str ''Y'', Str ''T'', Str ''Z'', Str ''P'', Str ''D'', Str ''IEX''],
         rows = [[1, 2, 3, 4, 0.5, 1]]\<rparr>\<rparr>
     \<noteq> Inr (Some \<lparr>columns = YTZPD, rows = [[1, 2, 3, 4, 0.5]]\<rparr>)
   \<and> active_slice \<lparr>LABEL1 = ''BEAM'', SLICE = 0, REFERENCE = 0, slices = 1,
       distribution = Some \<lparr>columns = [Str ''Y'', Str ''T'', Str ''Z'', Str ''P'', Str ''D'', Str ''IEX''],
         rows = [[1, 2, 3, 4, 0.5, 1]]\<rparr>\<rparr>
     = Inl ValueError"
  by (simp add: active_slice_def set_columns_def slice_window_def iloc_def)

text \<open>
  A slice count of 0 is a division by zero, whatever the population.
\<close>

lemma active_slice_zero_slices:
  "active_slice \<lparr>LABEL1 = ''BEAM'', SLICE = 0, REFERENCE = 0, slices = 0,
       distribution = Some \<lparr>columns = YTZPD, rows = [[1, 2, 3, 4, 0.5]]\<rparr>\<rparr>
     = Inl ZeroDivisionError"
  by (simp add: active_slice_def)

section \<open>Properties of the mappings\<close>

text \<open>
  One axis expands to one single-assignment dictionary per value, in the order of the
  values.
\<close>

lemma combinations_single: "combinations [(name, vals)] = map (\<lambda>v. [(name, v)]) vals"
  by (induction vals) simp_all

text \<open>
  Claim C5. With \<^verbatim>\<open>REFERENCE\<close> equal to 1 the mappings are the one dictionary
  \<open>{LABEL1.REFERENCE: 1}\<close>, whatever the slice count and the distribution; otherwise
  they are one dictionary \<open>{LABEL1.SLICE: i}\<close> per \<open>i\<close> of
  \<^verbatim>\<open>range(0, self._slices)\<close>, in that order.
\<close>

theorem mappings_reference_or_slices:
  "(REFERENCE b = 1 \<longrightarrow> mappings b = [[(LABEL1 b @ ''.REFERENCE'', 1)]])
   \<and> (REFERENCE b \<noteq> 1 \<longrightarrow>
        mappings b = map (\<lambda>i. [(LABEL1 b @ ''.SLICE'', i)]) [0..slices b - 1])"
  by (simp add: mappings_def combinations_single)

theorem mappings_reference_or_slices_witness:
  "mappings \<lparr>LABEL1 = ''BEAM'', SLICE = 2, REFERENCE = 1, slices = 3, distribution = None\<rparr>
     = [[(''BEAM.REFERENCE'', 1)]]
   \<and> mappings \<lparr>LABEL1 = ''BEAM'', SLICE = 2, REFERENCE = 0, slices = 3, distribution = None\<rparr>
     = [[(''BEAM.SLICE'', 0)], [(''BEAM.SLICE'', 1)], [(''BEAM.SLICE'', 2)]]"
  using mappings_reference_or_slices
          [of "\<lparr>LABEL1 = ''BEAM'', SLICE = 2, REFERENCE = 1, slices = 3, distribution = None\<rparr>"]
        mappings_reference_or_slices
          [of "\<lparr>LABEL1 = ''BEAM'', SLICE = 2, REFERENCE = 0, slices = 3, distribution = None\<rparr>"]
  by (simp add: upto.simps)

text \<open>
  The expansion is row-major: the example of the spec, with 10 and 20 for its x and y.
\<close>

lemma combinations_example:
  "combinations [(''A'', [1, 2, 3 :: int]), (''B'', [10, 20])]
     = [[(''A'', 1), (''B'', 10)], [(''A'', 1), (''B'', 20)],
        [(''A'', 2), (''B'', 10)], [(''A'', 2), (''B'', 20)],
        [(''A'', 3), (''B'', 10)], [(''A'', 3), (''B'', 20)]]"
  by simp

section \<open>Properties of the distribution synthesis\<close>

text \<open>
  Claim C6. With BETAX = 2, ALPHAX = 0, EMITX = 1e-6 and the same for the Y plane, the
  keyword check and the gammas pass, and the matrix handed to the sampler has
  (X, X) = 2e-6, (PX, PX) = 0.5e-6 and (X, PX) = (PX, X) = 0.
\<close>

theorem twiss_covariance_entries:
  "\<exists>a. twiss_sigma_args [(''BETAX'', 2), (''ALPHAX'', 0), (''EMITX'', 1 / 10 ^ 6),
                           (''BETAY'', 2), (''ALPHAY'', 0), (''EMITY'', 1 / 10 ^ 6)] = Inr a
     \<and> sigma_matrix a ! 0 ! 0 = 2 / 10 ^ 6
     \<and> sigma_matrix a ! 1 ! 1 = 0.5 / 10 ^ 6
     \<and> sigma_matrix a ! 0 ! 1 = 0
     \<and> sigma_matrix a ! 1 ! 0 = 0
     \<and> generate_from_5d_sigma_matrix e n a
         = generator e [0, 0, 0, 0, 0] (np_array (sigma_matrix a)) n"
  by (simp add: twiss_sigma_args_def keys_def kwargs_get_def sigma_defaults_def sigma_matrix_def
        generate_from_5d_sigma_matrix_def)

text \<open>
  Claim C8. If some keyword is not one of the twelve accepted names,
  \<^verbatim>\<open>from_twiss_parameters\<close> raises the exception of an invalid argument: no keyword
  arguments for the sigma matrix are built, the result is the same for every sampler and
  every \<open>n\<close>, and the beam is left as it was.
\<close>

theorem twiss_invalid_keyword:
  assumes "k \<in> set (map fst kwargs)" and "k \<notin> set keys"
  shows "from_twiss_parameters e n kwargs b
           = Inl (ZgoubidooBeamException ''Invalid argument for a twiss distribution.'', b)
       \<and> twiss_sigma_args kwargs
           = Inl (ZgoubidooBeamException ''Invalid argument for a twiss distribution.'')"
proof -
  have "list_ex (\<lambda>k. k \<notin> set keys) (map fst kwargs)"
    using assms unfolding list_ex_iff by blast
  then show ?thesis
    by (simp add: from_twiss_parameters_def twiss_sigma_args_def)
qed

theorem twiss_invalid_keyword_witness:
  "from_twiss_parameters
      \<lparr>read_csv = (\<lambda>p f. Inl FileNotFoundError),
       generator = (\<lambda>m c n. Inr \<lparr>shape = [nat n, length m], data = concat (replicate (nat n) m)\<rparr>)\<rparr>
      100 [(''BETAX'', 2), (''EMITX'', 1 / 10 ^ 6), (''EMITY'', 1 / 10 ^ 6), (''GAMMAX'', 1)]
      \<lparr>LABEL1 = ''BEAM'', SLICE = 0, REFERENCE = 0, slices = 1, distribution = None\<rparr>
     = Inl (ZgoubidooBeamException ''Invalid argument for a twiss distribution.'',
            \<lparr>LABEL1 = ''BEAM'', SLICE = 0, REFERENCE = 0, slices = 1, distribution = None\<rparr>)"
  using twiss_invalid_keyword [of "''GAMMAX''"
      "[(''BETAX'', 2), (''EMITX'', 1 / 10 ^ 6), (''EMITY'', 1 / 10 ^ 6), (''GAMMAX'', 1)]"
      "\<lparr>read_csv = (\<lambda>p f. Inl FileNotFoundError),
        generator = (\<lambda>m c n. Inr \<lparr>shape = [nat n, length m], data = concat (replicate (nat n) m)\<rparr>)\<rparr>"
      100
      "\<lparr>LABEL1 = ''BEAM'', SLICE = 0, REFERENCE = 0, slices = 1, distribution = None\<rparr>"]
  by (simp add: keys_def)

lemma assign_and_check_empty:
  "rows t = [] \<Longrightarrow> assign_and_check b t = Inl (invalid_number_of_particles, b\<lparr>distribution := Some t\<rparr>)"
  by (simp add: assign_and_check_def Let_def)

lemma assign_and_check_returns:
  "assign_and_check b t = Inr b' \<Longrightarrow> distribution b' = Some t \<and> rows t \<noteq> []"
  by (auto simp: assign_and_check_def Let_def split: if_splits)

lemma initialize_distribution_given:
  "initialize_distribution e (Some t) args fn p b = assign_and_check b t"
  by (simp add: initialize_distribution_def)

lemma initialize_distribution_returns:
  assumes "initialize_distribution e d args fn p b = Inr b'"
  shows "b' = b \<or> (\<exists>t. distribution b' = Some t \<and> rows t \<noteq> [])"
  using assms
  by (auto simp: initialize_distribution_def Let_def
      split: option.splits list.splits sum.splits dest: assign_and_check_returns)

lemma py_slice_to_zero: "py_slice None (Some 0) xs = []"
  by (simp add: py_slice_def slice_bound_def)

lemma py_slice_nil: "py_slice a c [] = []"
  by (simp add: py_slice_def)

lemma pd_DataFrame_no_rows:
  "shape a = [0, w] \<Longrightarrow> pd_DataFrame a = Inr \<lparr>columns = map Num [0..<w], rows = []\<rparr>"
  by (simp add: pd_DataFrame_def)

lemma from_5d_no_rows:
  assumes "\<forall>m c. \<exists>a w. generator e m c 0 = Inr a \<and> shape a = [0, w]"
    and "kw_matrix a = None \<or> (\<exists>m. kw_matrix a = Some m \<and> shape m = [5, 5])"
  shows "\<exists>t. rows t = [] \<and> from_5d_sigma_matrix e 0 a b = Inl (invalid_number_of_particles, b\<lparr>distribution := Some t\<rparr>)"
proof -
  from assms(1) have g: "\<exists>a w. generator e m c 0 = Inr a \<and> shape a = [0, w]" for m c
    by blast
  from assms(2) obtain m c where "generate_from_5d_sigma_matrix e 0 a = generator e m c 0"
    by (auto simp: generate_from_5d_sigma_matrix_def Let_def)
  with g [of m c] obtain arr w where
    arr: "generate_from_5d_sigma_matrix e 0 a = Inr arr" "shape arr = [0, w]"
    by auto
  let ?t = "\<lparr>columns = map Num [0..<w], rows = []\<rparr>"
  have "from_5d_sigma_matrix e 0 a b = assign_and_check b ?t"
    by (simp add: from_5d_sigma_matrix_def arr(1) pd_DataFrame_no_rows [OF arr(2)]
          initialize_distribution_given)
  then have "from_5d_sigma_matrix e 0 a b = Inl (invalid_number_of_particles, b\<lparr>distribution := Some ?t\<rparr>)"
    by (simp add: assign_and_check_empty)
  then show ?thesis by (intro exI [of _ ?t]) simp
qed

lemma twiss_sigma_args_no_matrix: "twiss_sigma_args kwargs = Inr a \<Longrightarrow> kw_matrix a = None"
  by (auto simp: twiss_sigma_args_def Let_def sigma_defaults_def split: if_splits option.splits)

text \<open>
  Claim C4. A distribution without rows handed to \<^verbatim>\<open>_initialize_distribution\<close> raises
  the exception of an invalid number of particles, right after the assignment; the
  method never returns normally having assigned a distribution without rows, by
  whichever of its paths. \<^verbatim>\<open>from_file\<close> with \<open>n = 0\<close> on a readable file raises it,
  and so does \<^verbatim>\<open>from_file\<close> on a file without rows, for every \<open>n\<close>. With a sampler
  that returns an array of no rows when asked for 0 draws, \<^verbatim>\<open>from_5d_sigma_matrix\<close>
  with \<open>n = 0\<close> (no matrix given, or one of shape (5, 5)) raises it, and so does
  \<^verbatim>\<open>from_twiss_parameters\<close> with \<open>n = 0\<close> on keyword arguments that pass its checks.
\<close>

theorem empty_distribution_raises:
  "(rows t = [] \<longrightarrow>
      initialize_distribution e (Some t) args fn p b = Inl (invalid_number_of_particles, b\<lparr>distribution := Some t\<rparr>))
   \<and> (initialize_distribution e d args fn p b = Inr b' \<longrightarrow>
        b' = b \<or> (\<exists>t'. distribution b' = Some t' \<and> rows t' \<noteq> []))
   \<and> (read_csv e path file = Inr t \<longrightarrow>
        from_file e file (Some 0) path b = Inl (invalid_number_of_particles, b\<lparr>distribution := Some (t\<lparr>rows := []\<rparr>)\<rparr>))
   \<and> (read_csv e path file = Inr t \<and> rows t = [] \<longrightarrow>
        from_file e file n path b = Inl (invalid_number_of_particles, b\<lparr>distribution := Some t\<rparr>))
   \<and> ((\<forall>m c. \<exists>arr w. generator e m c 0 = Inr arr \<and> shape arr = [0, w])
        \<and> (kw_matrix a = None \<or> (\<exists>m. kw_matrix a = Some m \<and> shape m = [5, 5])) \<longrightarrow>
        (\<exists>t'. rows t' = [] \<and>
           from_5d_sigma_matrix e 0 a b = Inl (invalid_number_of_particles, b\<lparr>distribution := Some t'\<rparr>)))
   \<and> ((\<forall>m c. \<exists>arr w. generator e m c 0 = Inr arr \<and> shape arr = [0, w])
        \<and> twiss_sigma_args kwargs = Inr a \<longrightarrow>
        (\<exists>t'. rows t' = [] \<and>
           from_twiss_parameters e 0 kwargs b = Inl (invalid_number_of_particles, b\<lparr>distribution := Some t'\<rparr>)))"
proof -
  have c1: "rows t = [] \<longrightarrow>
      initialize_distribution e (Some t) args fn p b = Inl (invalid_number_of_particles, b\<lparr>distribution := Some t\<rparr>)"
    by (simp add: initialize_distribution_given assign_and_check_empty)
  have c2: "initialize_distribution e d args fn p b = Inr b' \<longrightarrow>
        b' = b \<or> (\<exists>t'. distribution b' = Some t' \<and> rows t' \<noteq> [])"
    using initialize_distribution_returns by blast
  have c3: "read_csv e path file = Inr t \<longrightarrow>
        from_file e file (Some 0) path b = Inl (invalid_number_of_particles, b\<lparr>distribution := Some (t\<lparr>rows := []\<rparr>)\<rparr>)"
    by (simp add: from_file_def generate_from_file_def df_head_def py_slice_to_zero
          initialize_distribution_given assign_and_check_empty)
  have c4: "read_csv e path file = Inr t \<and> rows t = [] \<longrightarrow>
        from_file e file n path b = Inl (invalid_number_of_particles, b\<lparr>distribution := Some t\<rparr>)"
    by (simp add: from_file_def generate_from_file_def df_head_def py_slice_nil
          initialize_distribution_given assign_and_check_empty)
  have c5: "(\<forall>m c. \<exists>arr w. generator e m c 0 = Inr arr \<and> shape arr = [0, w])
        \<and> (kw_matrix a = None \<or> (\<exists>m. kw_matrix a = Some m \<and> shape m = [5, 5])) \<longrightarrow>
        (\<exists>t'. rows t' = [] \<and>
           from_5d_sigma_matrix e 0 a b = Inl (invalid_number_of_particles, b\<lparr>distribution := Some t'\<rparr>))"
    using from_5d_no_rows by blast
  have c6: "(\<forall>m c. \<exists>arr w. generator e m c 0 = Inr arr \<and> shape arr = [0, w])
        \<and> twiss_sigma_args kwargs = Inr a \<longrightarrow>
        (\<exists>t'. rows t' = [] \<and>
           from_twiss_parameters e 0 kwargs b = Inl (invalid_number_of_particles, b\<lparr>distribution := Some t'\<rparr>))"
  proof
    assume h: "(\<forall>m c. \<exists>arr w. generator e m c 0 = Inr arr \<and> shape arr = [0, w])
        \<and> twiss_sigma_args kwargs = Inr a"
    then have "kw_matrix a = None" using twiss_sigma_args_no_matrix by blast
    with h from_5d_no_rows [of e a b] show "\<exists>t'. rows t' = [] \<and>
           from_twiss_parameters e 0 kwargs b = Inl (invalid_number_of_particles, b\<lparr>distribution := Some t'\<rparr>)"
      by (simp add: from_twiss_parameters_def)
  qed
  from c1 c2 c3 c4 c5 c6 show ?thesis by (intro conjI)
qed


theorem empty_distribution_raises_witness:
  "initialize_distribution
      \<lparr>read_csv = (\<lambda>p f. if f = ''beam.csv'' then Inr \<lparr>columns = YTZPD, rows = [[1, 2, 3, 4, 0.5]]\<rparr>
                          else if f = ''empty.csv'' then Inr \<lparr>columns = YTZPD, rows = []\<rparr>
                          else Inl FileNotFoundError),
       generator = (\<lambda>m c n. if n < 0 then Inl ValueError
                             else Inr \<lparr>shape = [nat n, length m], data = concat (replicate (nat n) m)\<rparr>)\<rparr>
      (Some \<lparr>columns = YTZPD, rows = []\<rparr>) [] None None
      \<lparr>LABEL1 = ''BEAM'', SLICE = 0, REFERENCE = 0, slices = 1, distribution = None\<rparr>
     = Inl (invalid_number_of_particles, \<lparr>LABEL1 = ''BEAM'', SLICE = 0, REFERENCE = 0, slices = 1,
                  distribution = Some \<lparr>columns = YTZPD, rows = []\<rparr>\<rparr>)
   \<and> from_file
      \<lparr>read_csv = (\<lambda>p f. if f = ''beam.csv'' then Inr \<lparr>columns = YTZPD, rows = [[1, 2, 3, 4, 0.5]]\<rparr>
                          else if f = ''empty.csv'' then Inr \<lparr>columns = YTZPD, rows = []\<rparr>
                          else Inl FileNotFoundError),
       generator = (\<lambda>m c n. if n < 0 then Inl ValueError
                             else Inr \<lparr>shape = [nat n, length m], data = concat (replicate (nat n) m)\<rparr>)\<rparr>
      ''beam.csv'' (Some 0) ''.''
      \<lparr>LABEL1 = ''BEAM'', SLICE = 0, REFERENCE = 0, slices = 1, distribution = None\<rparr>
     = Inl (invalid_number_of_particles, \<lparr>LABEL1 = ''BEAM'', SLICE = 0, REFERENCE = 0, slices = 1,
                  distribution = Some \<lparr>columns = YTZPD, rows = []\<rparr>\<rparr>)
   \<and> from_file
      \<lparr>read_csv = (\<lambda>p f. if f = ''beam.csv'' then Inr \<lparr>columns = YTZPD, rows = [[1, 2, 3, 4, 0.5]]\<rparr>
                          else if f = ''empty.csv'' then Inr \<lparr>columns = YTZPD, rows = []\<rparr>
                          else Inl FileNotFoundError),
       generator = (\<lambda>m c n. if n < 0 then Inl ValueError
                             else Inr \<lparr>shape = [nat n, length m], data = concat (replicate (nat n) m)\<rparr>)\<rparr>
      ''empty.csv'' None ''.''
      \<lparr>LABEL1 = ''BEAM'', SLICE = 0, REFERENCE = 0, slices = 1, distribution = None\<rparr>
     = Inl (invalid_number_of_particles, \<lparr>LABEL1 = ''BEAM'', SLICE = 0, REFERENCE = 0, slices = 1,
                  distribution = Some \<lparr>columns = YTZPD, rows = []\<rparr>\<rparr>)
   \<and> (\<exists>t'. rows t' = [] \<and> from_5d_sigma_matrix
      \<lparr>read_csv = (\<lambda>p f. if f = ''beam.csv'' then Inr \<lparr>columns = YTZPD, rows = [[1, 2, 3, 4, 0.5]]\<rparr>
                          else if f = ''empty.csv'' then Inr \<lparr>columns = YTZPD, rows = []\<rparr>
                          else Inl FileNotFoundError),
       generator = (\<lambda>m c n. if n < 0 then Inl ValueError
                             else Inr \<lparr>shape = [nat n, length m], data = concat (replicate (nat n) m)\<rparr>)\<rparr>
      0 sigma_defaults
      \<lparr>LABEL1 = ''BEAM'', SLICE = 0, REFERENCE = 0, slices = 1, distribution = None\<rparr>
     = Inl (invalid_number_of_particles, \<lparr>LABEL1 = ''BEAM'', SLICE = 0, REFERENCE = 0, slices = 1,
                  distribution = Some t'\<rparr>))
   \<and> (\<exists>t'. rows t' = [] \<and> from_twiss_parameters
      \<lparr>read_csv = (\<lambda>p f. if f = ''beam.csv'' then Inr \<lparr>columns = YTZPD, rows = [[1, 2, 3, 4, 0.5]]\<rparr>
                          else if f = ''empty.csv'' then Inr \<lparr>columns = YTZPD, rows = []\<rparr>
                          else Inl FileNotFoundError),
       generator = (\<lambda>m c n. if n < 0 then Inl ValueError
                             else Inr \<lparr>shape = [nat n, length m], data = concat (replicate (nat n) m)\<rparr>)\<rparr>
      0 [(''EMITX'', 1), (''EMITY'', 1)]
      \<lparr>LABEL1 = ''BEAM'', SLICE = 0, REFERENCE = 0, slices = 1, distribution = None\<rparr>
     = Inl (invalid_number_of_particles, \<lparr>LABEL1 = ''BEAM'', SLICE = 0, REFERENCE = 0, slices = 1,
                  distribution = Some t'\<rparr>))
   \<and> initialize_distribution
      \<lparr>read_csv = (\<lambda>p f. if f = ''beam.csv'' then Inr \<lparr>columns = YTZPD, rows = [[1, 2, 3, 4, 0.5]]\<rparr>
                          else if f = ''empty.csv'' then Inr \<lparr>columns = YTZPD, rows = []\<rparr>
                          else Inl FileNotFoundError),
       generator = (\<lambda>m c n. if n < 0 then Inl ValueError
                             else Inr \<lparr>shape = [nat n, length m], data = concat (replicate (nat n) m)\<rparr>)\<rparr>
      None [] (Some ''beam.csv'') None
      \<lparr>LABEL1 = ''BEAM'', SLICE = 0, REFERENCE = 0, slices = 1, distribution = None\<rparr>
     = Inr \<lparr>LABEL1 = ''BEAM'', SLICE = 0, REFERENCE = 0, slices = 1,
            distribution = Some \<lparr>columns = YTZPD, rows = [[1, 2, 3, 4, 0.5]]\<rparr>\<rparr>"
proof -
  let ?e = "\<lparr>read_csv = (\<lambda>p f. if f = ''beam.csv'' then Inr \<lparr>columns = YTZPD, rows = [[1, 2, 3, 4, 0.5]]\<rparr>
                          else if f = ''empty.csv'' then Inr \<lparr>columns = YTZPD, rows = []\<rparr>
                          else Inl FileNotFoundError),
       generator = (\<lambda>m c n. if n < 0 then Inl ValueError
                             else Inr \<lparr>shape = [nat n, length m], data = concat (replicate (nat n) m)\<rparr>)\<rparr>"
  let ?b = "\<lparr>LABEL1 = ''BEAM'', SLICE = 0, REFERENCE = 0, slices = 1, distribution = None\<rparr>"
  let ?t0 = "\<lparr>columns = YTZPD, rows = []\<rparr>"
  let ?t1 = "\<lparr>columns = YTZPD, rows = [[1, 2, 3, 4, 0.5 :: real]]\<rparr>"
  have g: "\<forall>m c. \<exists>arr w. generator ?e m c 0 = Inr arr \<and> shape arr = [0, w]"
    by simp
  have r1: "read_csv ?e ''.'' ''beam.csv'' = Inr ?t1" by simp
  have r0: "read_csv ?e ''.'' ''empty.csv'' = Inr ?t0 \<and> rows ?t0 = []" by simp
  have tw: "twiss_sigma_args [(''EMITX'', 1), (''EMITY'', 1)]
      = Inr (sigma_defaults\<lparr>kw_s11 := 1, kw_s22 := 1, kw_s33 := 1, kw_s44 := 1\<rparr>)"
    by (simp add: twiss_sigma_args_def keys_def kwargs_get_def sigma_defaults_def)
  have m: "kw_matrix sigma_defaults = None \<or> (\<exists>m. kw_matrix sigma_defaults = Some m \<and> shape m = [5, 5])"
    by (simp add: sigma_defaults_def)
  have ok: "initialize_distribution ?e None [] (Some ''beam.csv'') None ?b
      = Inr (?b\<lparr>distribution := Some ?t1\<rparr>)"
    by (simp add: initialize_distribution_def generate_from_file_def df_head_def py_slice_def
          assign_and_check_def)
  note T1 = empty_distribution_raises
    [of ?t0 ?e "[]" None None ?b None "?b\<lparr>distribution := Some ?t1\<rparr>" "''.''" "''empty.csv''" None
        sigma_defaults "[(''EMITX'', 1), (''EMITY'', 1)]"]
  note T2 = empty_distribution_raises
    [of ?t1 ?e "[]" "Some ''beam.csv''" None ?b None "?b\<lparr>distribution := Some ?t1\<rparr>" "''.''" "''beam.csv''" None
        "sigma_defaults\<lparr>kw_s11 := 1, kw_s22 := 1, kw_s33 := 1, kw_s44 := 1\<rparr>"
        "[(''EMITX'', 1), (''EMITY'', 1)]"]
  have a1: "initialize_distribution ?e (Some ?t0) [] None None ?b
      = Inl (invalid_number_of_particles, ?b\<lparr>distribution := Some ?t0\<rparr>)"
    using T1 by simp
  have a3: "from_file ?e ''beam.csv'' (Some 0) ''.'' ?b
      = Inl (invalid_number_of_particles, ?b\<lparr>distribution := Some (?t1\<lparr>rows := []\<rparr>)\<rparr>)"
    using T2 r1 by blast
  have a4: "from_file ?e ''empty.csv'' None ''.'' ?b = Inl (invalid_number_of_particles, ?b\<lparr>distribution := Some ?t0\<rparr>)"
    using T1 r0 by blast
  have a5: "\<exists>t'. rows t' = [] \<and>
      from_5d_sigma_matrix ?e 0 sigma_defaults ?b = Inl (invalid_number_of_particles, ?b\<lparr>distribution := Some t'\<rparr>)"
    using T1 g m by blast
  have a6: "\<exists>t'. rows t' = [] \<and>
      from_twiss_parameters ?e 0 [(''EMITX'', 1), (''EMITY'', 1)] ?b
        = Inl (invalid_number_of_particles, ?b\<lparr>distribution := Some t'\<rparr>)"
    using T2 g tw by blast
  have a2: "?b\<lparr>distribution := Some ?t1\<rparr> = ?b
      \<or> (\<exists>t'. distribution (?b\<lparr>distribution := Some ?t1\<rparr>) = Some t' \<and> rows t' \<noteq> [])"
    using T2 ok by blast
  from a1 a3 a4 a5 a6 ok show ?thesis by simp
qed


end
